theory Spec2Isabelle
  imports Main
begin

section \<open>Types as the traits of \<open>jv/bounded-poly.hpp\<close> see them\<close>

text \<open>
  The header is a set of C++ templates. A template argument is modelled by a descriptor
  that records what the header asks of it through \<open><type_traits>\<close>: its size and
  alignment, whether it is trivial, its base classes, and the \<open>noexcept\<close> facts.
  Four more entries describe the values of the type at run time:
  \<^item> \<open>nfields\<close>, the number of data members, those of the base classes first;
  \<^item> \<open>move_ctor\<close>, the move constructor of the class: from the members of the source
    to the members of the new object and the members the source is left with;
  \<^item> \<open>offset_of\<close>, the offset of each base class subobject in an object of the class;
  \<^item> \<open>overrides_Method\<close>, whether the class itself overrides the virtual relocation
    method that \<open>VirtualMover\<close> calls.

  A data member is either an owning pointer (\<open>std::unique_ptr\<close>, as in the classes of
  \<open>tests/main.cpp\<close>; \<open>None\<close> is \<open>nullptr\<close>) or a plain scalar.
\<close>

type_synonym cname = string

datatype field = Ptr "int option" | Val int

record ty =
  tname :: cname
  is_class :: bool
  bases :: "cname list"
  sizeof :: nat
  alignof :: nat
  is_trivial :: bool
  is_nothrow_move_constructible :: bool
  is_nothrow_destructible :: bool
  has_virtual_destructor :: bool
  nfields :: nat
  move_ctor :: "field list \<Rightarrow> field list \<times> field list"
  offset_of :: "cname \<Rightarrow> nat"
  overrides_Method :: bool

text \<open>
  A mover type, by the traits \<open>is_movable\<close> and the container inspect:
  \<open>is_nothrow_invocable M T\<close> is \<open>std::is_nothrow_invocable_r_v<void, M, T &&, void *>\<close>
  and \<open>is_nothrow_constructible_from M A\<close> is
  \<open>std::is_nothrow_constructible_v<M, A const *>\<close>.
\<close>

record mover_ty =
  is_empty :: bool
  mover_nothrow_destructible :: bool
  is_nothrow_invocable :: "ty \<Rightarrow> bool"
  is_nothrow_copy_assignable :: bool
  is_nothrow_constructible_from :: "ty \<Rightarrow> bool"

text \<open>\<open>std::is_base_of_v<B, D>\<close>: both are class types and \<open>B\<close> is \<open>D\<close> or one of its bases.\<close>

definition is_base_of :: "ty \<Rightarrow> ty \<Rightarrow> bool" where
  "is_base_of B D \<longleftrightarrow>
     is_class B \<and> is_class D \<and> (tname B = tname D \<or> tname B \<in> set (bases D))"

text \<open>\<open>template <typename T, typename Storage> struct is_storable\<close>.\<close>

definition is_storable :: "ty \<Rightarrow> ty \<Rightarrow> bool" where
  "is_storable T Storage \<longleftrightarrow>
     sizeof T \<le> sizeof Storage \<and> alignof Storage mod alignof T = 0 \<and> is_trivial Storage"

text \<open>\<open>template <typename T, typename Mover, typename A> struct is_movable\<close>.\<close>

definition is_movable :: "ty \<Rightarrow> mover_ty \<Rightarrow> ty \<Rightarrow> bool" where
  "is_movable T Mover A \<longleftrightarrow>
     mover_nothrow_destructible Mover \<and>
     is_nothrow_invocable Mover T \<and>
     is_base_of T A \<and>
     (is_empty Mover \<or>
      (is_nothrow_copy_assignable Mover \<and> is_nothrow_constructible_from Mover A))"

text \<open>
  The two movers of the header, as mover types. \<open>UniversalMover<T>\<close> holds one function
  pointer, is copy-assignable, and its constructor template accepts \<open>A const *\<close> for
  every \<open>A\<close> and is declared \<open>noexcept\<close>. \<open>VirtualMover<T, Method>\<close> has no data member
  and no constructor from a pointer. The call operator of both takes \<open>T &&\<close>, to which
  an rvalue of \<open>T\<close> or of a class derived from \<open>T\<close> binds.
\<close>

definition binds_to :: "ty \<Rightarrow> ty \<Rightarrow> bool" where
  "binds_to T U \<longleftrightarrow> U = T \<or> is_base_of T U"

definition UniversalMover_ty :: "ty \<Rightarrow> mover_ty" where
  "UniversalMover_ty T =
     \<lparr> is_empty = False,
       mover_nothrow_destructible = True,
       is_nothrow_invocable = binds_to T,
       is_nothrow_copy_assignable = True,
       is_nothrow_constructible_from = (\<lambda>A. True) \<rparr>"

definition VirtualMover_ty :: "ty \<Rightarrow> mover_ty" where
  "VirtualMover_ty T =
     \<lparr> is_empty = True,
       mover_nothrow_destructible = True,
       is_nothrow_invocable = binds_to T,
       is_nothrow_copy_assignable = True,
       is_nothrow_constructible_from = (\<lambda>A. False) \<rparr>"

text \<open>
  An instantiation \<open>BoundedPoly<Storage, Base, Mover>\<close>, the \<open>static_assert\<close>s of the
  class body, and the member template \<open>can_handle\<close>.
\<close>

record inst =
  Storage :: ty
  Base :: ty
  Mover :: mover_ty

definition class_static_asserts :: "inst \<Rightarrow> bool" where
  "class_static_asserts I \<longleftrightarrow>
     is_nothrow_destructible (Base I) \<and>
     has_virtual_destructor (Base I) \<and>
     is_storable (Base I) (Storage I) \<and>
     mover_nothrow_destructible (Mover I) \<and>
     is_nothrow_invocable (Mover I) (Base I)"

definition can_handle :: "inst \<Rightarrow> ty \<Rightarrow> bool" where
  "can_handle I T \<longleftrightarrow>
     is_nothrow_move_constructible T \<and> is_base_of (Base I) T \<and>
     is_movable (Base I) (Mover I) T \<and> is_storable T (Storage I)"


section \<open>Values and their move construction\<close>

text \<open>
  An object is its dynamic type and the values of its data members, base members first.
\<close>

record obj =
  dyn :: ty
  members :: "field list"

fun moved_from :: "field \<Rightarrow> field" where
  "moved_from (Ptr p) = Ptr None"
| "moved_from (Val v) = Val v"

text \<open>
  The implicitly defined move constructor moves member by member: moving from an owning
  pointer leaves \<open>nullptr\<close> behind, moving from a scalar leaves it as it was.
\<close>

definition implicit_move :: "field list \<Rightarrow> field list \<times> field list" where
  "implicit_move ms = (ms, map moved_from ms)"

text \<open>
  \<open>new (dst) A(std::move(src))\<close> runs the move constructor of \<open>A\<close> on the \<open>A\<close> members of
  the source: the new object has dynamic type \<open>A\<close> and the members the constructor
  gives it; the source keeps its own dynamic type and the members beyond those of
  \<open>A\<close>. The result is the new object and the source as it is left.
\<close>

definition move_construct :: "ty \<Rightarrow> obj \<Rightarrow> obj \<times> obj" where
  "move_construct A src =
     (\<lparr> dyn = A, members = fst (move_ctor A (take (nfields A) (members src))) \<rparr>,
      src \<lparr> members := snd (move_ctor A (take (nfields A) (members src)))
                        @ drop (nfields A) (members src) \<rparr>)"

text \<open>
  The move constructor of \<open>T\<close> gives the new object every member of the source, as the
  implicit one does.
\<close>

definition transfers_all :: "ty \<Rightarrow> bool" where
  "transfers_all T \<longleftrightarrow> (\<forall>ms. length ms = nfields T \<longrightarrow> fst (move_ctor T ms) = ms)"

section \<open>The movers at run time\<close>

datatype error = StaticAssert | UB

text \<open>
  A \<open>UniversalMover<T>\<close> constructed from \<open>A const *\<close> holds the function that casts its
  argument to \<open>A &&\<close> and move-constructs an \<open>A\<close>. A \<open>VirtualMover<T, Method>\<close> holds
  nothing.
\<close>

datatype mover = UniversalMover ty | VirtualMover

text \<open>
  The classes of the program, by name. The virtual call \<open>(std::move(src).*Method)(dst)\<close>
  runs the final overrider of \<open>Method\<close> in the dynamic type of \<open>src\<close>: the nearest class,
  from the dynamic type upwards, that overrides it. Every override in the repository is
  \<open>new (dst) K(std::move(*this))\<close> for its own class \<open>K\<close>.
\<close>

type_synonym class_table = "cname \<Rightarrow> ty option"

definition final_overrider :: "class_table \<Rightarrow> ty \<Rightarrow> ty option" where
  "final_overrider ct D = find overrides_Method (D # List.map_filter ct (bases D))"

text \<open>
  \<open>operator()(T &&src, void *dst)\<close> of both movers. The \<open>static_cast<A &&>(src)\<close> of
  the universal mover is defined only when the object is an \<open>A\<close> or of a class derived
  from \<open>A\<close>.
\<close>

definition call_mover :: "class_table \<Rightarrow> mover \<Rightarrow> obj \<Rightarrow> error + (obj \<times> obj)" where
  "call_mover ct m src =
     (case m of
        UniversalMover A \<Rightarrow>
          if binds_to A (dyn src) then Inr (move_construct A src) else Inl UB
      | VirtualMover \<Rightarrow>
          (case final_overrider ct (dyn src) of
             None \<Rightarrow> Inl UB
           | Some K \<Rightarrow> Inr (move_construct K src)))"

section \<open>Program state\<close>

text \<open>
  A container object lives at an address. Its \<open>storage_\<close> member is a location that
  holds a live object or none; the local buffer \<open>tmp\<close> of \<open>swap\<close> is one more location.
  \<open>movers\<close> is the \<open>mover_\<close> member of the containers whose mover type has state. The
  trace records, in program order, what the container's member functions do.
\<close>

type_synonym addr = nat

datatype loc = storage addr | tmp

datatype event =
    Derive ty
  | Dtor loc ty
  | CopyMover addr
  | New loc ty
  | Relocate loc loc
  | SwapMover addr addr

record state =
  movers :: "addr \<Rightarrow> mover option"
  objs :: "loc \<Rightarrow> obj option"
  trace :: "event list"

definition emit :: "event \<Rightarrow> state \<Rightarrow> state" where
  "emit e s = s \<lparr> trace := trace s @ [e] \<rparr>"

text \<open>Statements in sequence; undefined behaviour ends the run.\<close>

fun steps :: "(state \<Rightarrow> error + state) list \<Rightarrow> state \<Rightarrow> error + state" where
  "steps [] s = Inr s"
| "steps (f # fs) s = (case f s of Inl e \<Rightarrow> Inl e | Inr s' \<Rightarrow> steps fs s')"

subsection \<open>\<open>details::impl_MoverStorage\<close>\<close>

text \<open>
  \<open>MoverStorage<Mover>\<close> is the specialisation chosen by \<open>std::is_empty_v<Mover>\<close>. For an
  empty mover, \<open>mover_\<close> is a static default-constructed \<open>Mover\<close> and every member
  function is a no-op; otherwise \<open>mover_\<close> is a data member.
\<close>

definition mover_member :: "inst \<Rightarrow> state \<Rightarrow> addr \<Rightarrow> mover option" where
  "mover_member I s a = (if is_empty (Mover I) then Some VirtualMover else movers s a)"

text \<open>\<open>impl_MoverStorage(T const *t) : mover_{t}\<close>, as the value of a local \<open>MoverStorage\<close>.\<close>

definition MoverStorage_of :: "inst \<Rightarrow> ty \<Rightarrow> mover" where
  "MoverStorage_of I T = (if is_empty (Mover I) then VirtualMover else UniversalMover T)"

definition derive_mover :: "ty \<Rightarrow> state \<Rightarrow> error + state" where
  "derive_mover T s = Inr (emit (Derive T) s)"

text \<open>The base-class initialiser \<open>MoverStorage{static_cast<Derived const *>(nullptr)}\<close>.\<close>

definition init_mover :: "inst \<Rightarrow> addr \<Rightarrow> ty \<Rightarrow> state \<Rightarrow> error + state" where
  "init_mover I this T s =
     Inr (emit (Derive T)
       (if is_empty (Mover I) then s
        else s \<lparr> movers := (movers s)(this \<mapsto> UniversalMover T) \<rparr>))"

text \<open>The base-class initialiser \<open>MoverStorage{(MoverStorage const &)other}\<close>.\<close>

definition init_mover_from :: "inst \<Rightarrow> addr \<Rightarrow> addr \<Rightarrow> state \<Rightarrow> error + state" where
  "init_mover_from I this other s =
     (if is_empty (Mover I) then Inr (emit (CopyMover this) s)
      else case movers s other of
             None \<Rightarrow> Inl UB
           | Some m \<Rightarrow> Inr (emit (CopyMover this) (s \<lparr> movers := (movers s)(this \<mapsto> m) \<rparr>)))"

text \<open>\<open>copy_mover(Mover const &mover)\<close>.\<close>

definition copy_mover :: "inst \<Rightarrow> addr \<Rightarrow> mover \<Rightarrow> state \<Rightarrow> error + state" where
  "copy_mover I this m s =
     Inr (emit (CopyMover this)
       (if is_empty (Mover I) then s
        else s \<lparr> movers := (movers s)(this \<mapsto> m) \<rparr>))"

text \<open>\<open>this->copy_mover(other.mover_)\<close>: reads the mover of \<open>other\<close> first.\<close>

definition copy_mover_from :: "inst \<Rightarrow> addr \<Rightarrow> addr \<Rightarrow> state \<Rightarrow> error + state" where
  "copy_mover_from I this other s =
     (case mover_member I s other of
        None \<Rightarrow> Inl UB
      | Some m \<Rightarrow> copy_mover I this m s)"

text \<open>\<open>swap_mover(impl_MoverStorage &other)\<close>: \<open>std::swap(mover_, other.mover_)\<close>.\<close>

definition swap_mover :: "inst \<Rightarrow> addr \<Rightarrow> addr \<Rightarrow> state \<Rightarrow> error + state" where
  "swap_mover I this other s =
     (if is_empty (Mover I) then Inr (emit (SwapMover this other) s)
      else case (movers s this, movers s other) of
             (Some m, Some m') \<Rightarrow>
               Inr (emit (SwapMover this other)
                 (s \<lparr> movers := (movers s)(this \<mapsto> m', other \<mapsto> m) \<rparr>))
           | _ \<Rightarrow> Inl UB)"

subsection \<open>Placement new, destructor call, mover call\<close>

text \<open>\<open>new (&l) T(...)\<close> with the object the constructor produces.\<close>

definition placement_new :: "loc \<Rightarrow> obj \<Rightarrow> state \<Rightarrow> error + state" where
  "placement_new l x s = Inr (emit (New l (dyn x)) (s \<lparr> objs := (objs s)(l \<mapsto> x) \<rparr>))"

text \<open>
  \<open>reinterpret_cast<Base &>(l).~Base()\<close>. The destructor of \<open>Base\<close> is virtual (a
  \<open>static_assert\<close> of the class), so the whole object is destroyed; calling it where no
  object lives is undefined.
\<close>

definition destroy :: "loc \<Rightarrow> state \<Rightarrow> error + state" where
  "destroy l s =
     (case objs s l of
        None \<Rightarrow> Inl UB
      | Some x \<Rightarrow> Inr (emit (Dtor l (dyn x)) (s \<lparr> objs := (objs s)(l := None) \<rparr>)))"

text \<open>
  \<open>c.mover_(std::move(reinterpret_cast<Base &>(src)), &dst)\<close>: the mover of container
  \<open>c\<close> relocates the object at \<open>src\<close> to \<open>dst\<close>. The source is written first and the
  destination last. C++ does not say what a constructor leaves when it constructs over
  the object it reads; where both are the same location the model keeps the new object,
  and no statement about the value of a container is made for that case.
\<close>

definition relocate :: "inst \<Rightarrow> class_table \<Rightarrow> addr \<Rightarrow> loc \<Rightarrow> loc \<Rightarrow> state \<Rightarrow> error + state" where
  "relocate I ct c src dst s =
     (case mover_member I s c of
        None \<Rightarrow> Inl UB
      | Some m \<Rightarrow>
          (case objs s src of
             None \<Rightarrow> Inl UB
           | Some x \<Rightarrow>
               (case call_mover ct m x of
                  Inl e \<Rightarrow> Inl e
                | Inr (new, old) \<Rightarrow>
                    Inr (emit (Relocate src dst)
                      (s \<lparr> objs := (objs s)(src \<mapsto> old, dst \<mapsto> new) \<rparr>)))))"

section \<open>\<open>BoundedPoly\<close>\<close>

text \<open>
  Every member function is the sequence of its statements, guarded by the
  \<open>static_assert\<close>s that must hold for the call to compile. A constructor argument list
  \<open>args\<close> is given by the member values the constructor produces from it;
  \<open>std::is_constructible_v<Derived, Args...>\<close> then asks for one value per member.
\<close>

definition is_constructible :: "ty \<Rightarrow> field list \<Rightarrow> bool" where
  "is_constructible T args \<longleftrightarrow> length args = nfields T"

text \<open>\<open>template <typename Derived> BoundedPoly(Derived &&derived)\<close>.\<close>

definition BoundedPoly_value ::
  "inst \<Rightarrow> addr \<Rightarrow> ty \<Rightarrow> obj \<Rightarrow> state \<Rightarrow> error + state" where
  "BoundedPoly_value I this Derived derived s =
     (if class_static_asserts I \<and> can_handle I Derived then
        steps [init_mover I this Derived,
               placement_new (storage this) (fst (move_construct Derived derived))] s
      else Inl StaticAssert)"

text \<open>\<open>BoundedPoly(std::in_place_type_t<Derived>, Args &&... args)\<close>.\<close>

definition BoundedPoly_in_place ::
  "inst \<Rightarrow> addr \<Rightarrow> ty \<Rightarrow> field list \<Rightarrow> state \<Rightarrow> error + state" where
  "BoundedPoly_in_place I this Derived args s =
     (if class_static_asserts I \<and> is_constructible Derived args \<and> can_handle I Derived then
        steps [init_mover I this Derived,
               placement_new (storage this) \<lparr> dyn = Derived, members = args \<rparr>] s
      else Inl StaticAssert)"

text \<open>\<open>BoundedPoly(BoundedPoly &&other) noexcept\<close>.\<close>

definition BoundedPoly_move ::
  "inst \<Rightarrow> class_table \<Rightarrow> addr \<Rightarrow> addr \<Rightarrow> state \<Rightarrow> error + state" where
  "BoundedPoly_move I ct this other s =
     (if class_static_asserts I then
        steps [init_mover_from I this other,
               relocate I ct this (storage other) (storage this)] s
      else Inl StaticAssert)"

text \<open>\<open>template <typename Derived> auto operator=(Derived derived) noexcept\<close>.\<close>

definition assign_value ::
  "inst \<Rightarrow> addr \<Rightarrow> ty \<Rightarrow> obj \<Rightarrow> state \<Rightarrow> error + state" where
  "assign_value I this Derived derived s =
     (if class_static_asserts I \<and> can_handle I Derived then
        steps [derive_mover Derived,
               destroy (storage this),
               copy_mover I this (MoverStorage_of I Derived),
               placement_new (storage this) (fst (move_construct Derived derived))] s
      else Inl StaticAssert)"

text \<open>\<open>auto operator=(BoundedPoly &&other) noexcept\<close>.\<close>

definition assign_move ::
  "inst \<Rightarrow> class_table \<Rightarrow> addr \<Rightarrow> addr \<Rightarrow> state \<Rightarrow> error + state" where
  "assign_move I ct this other s =
     (if class_static_asserts I then
        steps [destroy (storage this),
               copy_mover_from I this other,
               relocate I ct this (storage other) (storage this)] s
      else Inl StaticAssert)"

text \<open>\<open>template <typename Derived, typename... Args> void emplace(Args &&... args) noexcept\<close>.\<close>

definition emplace ::
  "inst \<Rightarrow> addr \<Rightarrow> ty \<Rightarrow> field list \<Rightarrow> state \<Rightarrow> error + state" where
  "emplace I this Derived args s =
     (if class_static_asserts I \<and> can_handle I Derived \<and> is_constructible Derived args then
        steps [derive_mover Derived,
               destroy (storage this),
               copy_mover I this (MoverStorage_of I Derived),
               placement_new (storage this) \<lparr> dyn = Derived, members = args \<rparr>] s
      else Inl StaticAssert)"

text \<open>\<open>~BoundedPoly() noexcept\<close>; the \<open>mover_\<close> member, if there is one, ends with it.\<close>

definition destructor :: "inst \<Rightarrow> addr \<Rightarrow> state \<Rightarrow> error + state" where
  "destructor I this s =
     (if class_static_asserts I then
        (case destroy (storage this) s of
           Inl e \<Rightarrow> Inl e
         | Inr s' \<Rightarrow> Inr (s' \<lparr> movers := (movers s')(this := None) \<rparr>))
      else Inl StaticAssert)"

text \<open>
  \<open>reinterpret_cast<Base &>(storage_)\<close> refers to the \<open>Base\<close> subobject of an object of
  class \<open>T\<close> in the storage only when that subobject lies at offset 0 of the object.
\<close>

definition reinterpretable :: "inst \<Rightarrow> ty \<Rightarrow> bool" where
  "reinterpretable I T \<longleftrightarrow> T = Base I \<or> offset_of T (tname (Base I)) = 0"

text \<open>\<open>get()\<close>, read: the object the returned reference denotes.\<close>

definition get :: "inst \<Rightarrow> addr \<Rightarrow> state \<Rightarrow> error + obj" where
  "get I this s =
     (case objs s (storage this) of
        None \<Rightarrow> Inl UB
      | Some x \<Rightarrow> if reinterpretable I (dyn x) then Inr x else Inl UB)"

text \<open>\<open>void swap(BoundedPoly &other) noexcept\<close>.\<close>

definition swap :: "inst \<Rightarrow> class_table \<Rightarrow> addr \<Rightarrow> addr \<Rightarrow> state \<Rightarrow> error + state" where
  "swap I ct this other s =
     (if class_static_asserts I then
        steps [relocate I ct this (storage this) tmp,
               relocate I ct other (storage other) (storage this),
               relocate I ct this tmp (storage other),
               destroy tmp,
               swap_mover I this other] s
      else Inl StaticAssert)"

section \<open>Calls, consistency and reachable states\<close>

text \<open>The public operations that create, change or end a container.\<close>

datatype call =
    Construct_value addr ty obj
  | Construct_in_place addr ty "field list"
  | Construct_move addr addr
  | Assign_value addr ty obj
  | Assign_move addr addr
  | Emplace addr ty "field list"
  | Swap addr addr
  | Destroy addr

fun exec :: "inst \<Rightarrow> class_table \<Rightarrow> call \<Rightarrow> state \<Rightarrow> error + state" where
  "exec I ct (Construct_value this T v) s = BoundedPoly_value I this T v s"
| "exec I ct (Construct_in_place this T args) s = BoundedPoly_in_place I this T args s"
| "exec I ct (Construct_move this other) s = BoundedPoly_move I ct this other s"
| "exec I ct (Assign_value this T v) s = assign_value I this T v s"
| "exec I ct (Assign_move this other) s = assign_move I ct this other s"
| "exec I ct (Emplace this T args) s = emplace I this T args s"
| "exec I ct (Swap this other) s = swap I ct this other s"
| "exec I ct (Destroy this) s = destructor I this s"

fun run :: "inst \<Rightarrow> class_table \<Rightarrow> call list \<Rightarrow> state \<Rightarrow> error + state" where
  "run I ct [] s = Inr s"
| "run I ct (c # cs) s = (case exec I ct c s of Inl e \<Rightarrow> Inl e | Inr s' \<Rightarrow> run I ct cs s')"

text \<open>
  The mover of container \<open>a\<close> fits the object \<open>x\<close>: a mover with state is bound to the
  exact dynamic type of \<open>x\<close>; for a mover without state, the class of \<open>x\<close> has a final
  overrider of the relocation method to call.
\<close>

definition mover_fits :: "inst \<Rightarrow> class_table \<Rightarrow> state \<Rightarrow> addr \<Rightarrow> obj \<Rightarrow> bool" where
  "mover_fits I ct s a x \<longleftrightarrow>
     (if is_empty (Mover I) then final_overrider ct (dyn x) \<noteq> None
      else movers s a = Some (UniversalMover (dyn x)))"


definition consistent :: "inst \<Rightarrow> class_table \<Rightarrow> state \<Rightarrow> addr \<Rightarrow> bool" where
  "consistent I ct s a \<longleftrightarrow>
     (case objs s (storage a) of None \<Rightarrow> False | Some x \<Rightarrow> mover_fits I ct s a x)"




definition empty_state :: state where
  "empty_state = \<lparr> movers = Map.empty, objs = Map.empty, trace = [] \<rparr>"


text \<open>
  Container \<open>a\<close> holds the object \<open>x\<close> and its mover relocates \<open>x\<close> as an object of its
  own class: the mover is bound to the class of \<open>x\<close> or, without state, the class of
  \<open>x\<close> overrides the relocation method itself.
\<close>

definition fits_exactly :: "inst \<Rightarrow> state \<Rightarrow> addr \<Rightarrow> obj \<Rightarrow> bool" where
  "fits_exactly I s a x \<longleftrightarrow>
     objs s (storage a) = Some x \<and>
     (if is_empty (Mover I) then overrides_Method (dyn x)
      else movers s a = Some (UniversalMover (dyn x)))"

text \<open>
  Container \<open>a\<close> holds the value \<open>x\<close>, to be relocated and read as it is: beyond
  \<open>fits_exactly\<close>, \<open>x\<close> has the members of its class, the move constructor of its class
  transfers all of them, and \<open>get()\<close> refers to it.
\<close>

definition holds :: "inst \<Rightarrow> state \<Rightarrow> addr \<Rightarrow> obj \<Rightarrow> bool" where
  "holds I s a x \<longleftrightarrow>
     fits_exactly I s a x \<and> length (members x) = nfields (dyn x) \<and>
     transfers_all (dyn x) \<and> reinterpretable I (dyn x)"

text \<open>The dynamic type of the object in the storage of container \<open>a\<close>.\<close>

definition dynamic_type :: "addr \<Rightarrow> state \<Rightarrow> ty option" where
  "dynamic_type a s = map_option dyn (objs s (storage a))"

text \<open>What a run that returns leaves in container \<open>a\<close>; nothing if it does not return.\<close>

definition dynamic_type_after :: "addr \<Rightarrow> error + state \<Rightarrow> ty option" where
  "dynamic_type_after a r = (case r of Inl e \<Rightarrow> None | Inr s \<Rightarrow> dynamic_type a s)"

definition get_after :: "inst \<Rightarrow> addr \<Rightarrow> error + state \<Rightarrow> error + obj" where
  "get_after I a r = (case r of Inl e \<Rightarrow> Inl e | Inr s \<Rightarrow> get I a s)"





section \<open>The classes of \<open>tests/main.cpp\<close>\<close>

text \<open>
  \<open>Base\<close> (one \<open>std::unique_ptr<int>\<close>, virtual destructor), \<open>Derived\<close> (one more
  \<open>std::unique_ptr<float>\<close>), \<open>Storage = std::aligned_union_t<0, Base, Derived>\<close> and
  \<open>BigDerived\<close>, with the sizes of an LP64 target; \<open>Base2\<close> and \<open>Derived2\<close> are the same
  with a virtual \<open>move_to\<close> that each of them overrides. All of these have the implicit
  move constructor and one base at offset 0. \<open>NoticeableDestructor\<close> adds a \<open>bool &\<close> to
  \<open>Base\<close>; its own move constructor copies the reference and default-constructs the
  \<open>Base\<close> part, so the new object has \<open>i == nullptr\<close> and the source is left as it was.
  \<open>MayThrow\<close> stands for a class derived from \<open>Base\<close> whose move constructor is not
  \<open>noexcept\<close>, \<open>Inherits2\<close> for a class derived from \<open>Derived2\<close> that does not
  override \<open>move_to\<close>, and \<open>SecondBase\<close> for a class \<open>struct SecondBase : Other, Base\<close>
  whose \<open>Base\<close> subobject comes after an 8-byte \<open>Other\<close>.
\<close>

definition class_ty :: "cname \<Rightarrow> cname list \<Rightarrow> nat \<Rightarrow> nat \<Rightarrow> bool \<Rightarrow> ty" where
  "class_ty n bs sz nf ov =
     \<lparr> tname = n, is_class = True, bases = bs, sizeof = sz, alignof = 8,
       is_trivial = False, is_nothrow_move_constructible = True,
       is_nothrow_destructible = True, has_virtual_destructor = True,
       nfields = nf, move_ctor = implicit_move, offset_of = (\<lambda>b. 0),
       overrides_Method = ov \<rparr>"

definition Base_ty :: ty where
  "Base_ty = class_ty ''Base'' [] 16 1 False"

definition Derived_ty :: ty where
  "Derived_ty = class_ty ''Derived'' [''Base''] 24 2 False"

definition BigDerived_ty :: ty where
  "BigDerived_ty = class_ty ''BigDerived'' [''Base''] 40 1 False"

definition MayThrow_ty :: ty where
  "MayThrow_ty = (class_ty ''MayThrow'' [''Base''] 16 1 False)
     \<lparr> is_nothrow_move_constructible := False \<rparr>"

definition NoticeableDestructor_ty :: ty where
  "NoticeableDestructor_ty = (class_ty ''NoticeableDestructor'' [''Base''] 24 2 False)
     \<lparr> move_ctor := (\<lambda>ms. (Ptr None # tl ms, ms)) \<rparr>"

definition SecondBase_ty :: ty where
  "SecondBase_ty = (class_ty ''SecondBase'' [''Other'', ''Base''] 24 2 False)
     \<lparr> offset_of := (\<lambda>b. if b = ''Base'' then 8 else 0) \<rparr>"

definition Storage_ty :: ty where
  "Storage_ty =
     \<lparr> tname = ''Storage'', is_class = True, bases = [], sizeof = 24, alignof = 8,
       is_trivial = True, is_nothrow_move_constructible = True,
       is_nothrow_destructible = True, has_virtual_destructor = False,
       nfields = 0, move_ctor = implicit_move, offset_of = (\<lambda>b. 0),
       overrides_Method = False \<rparr>"

definition PolyBase :: inst where
  "PolyBase = \<lparr> Storage = Storage_ty, Base = Base_ty, Mover = UniversalMover_ty Base_ty \<rparr>"

definition Base2_ty :: ty where
  "Base2_ty = class_ty ''Base2'' [] 16 1 True"

definition Derived2_ty :: ty where
  "Derived2_ty = class_ty ''Derived2'' [''Base2''] 24 2 True"

definition MayThrow2_ty :: ty where
  "MayThrow2_ty = (class_ty ''MayThrow2'' [''Base2''] 16 1 True)
     \<lparr> is_nothrow_move_constructible := False \<rparr>"

definition Inherits2_ty :: ty where
  "Inherits2_ty = class_ty ''Inherits2'' [''Derived2'', ''Base2''] 24 2 False"

definition PolyBase2 :: inst where
  "PolyBase2 = \<lparr> Storage = Storage_ty, Base = Base2_ty, Mover = VirtualMover_ty Base2_ty \<rparr>"

definition classes :: class_table where
  "classes = map_of
     [(''Base'', Base_ty), (''Derived'', Derived_ty), (''BigDerived'', BigDerived_ty),
      (''NoticeableDestructor'', NoticeableDestructor_ty), (''SecondBase'', SecondBase_ty),
      (''Base2'', Base2_ty), (''Derived2'', Derived2_ty), (''Inherits2'', Inherits2_ty)]"

text \<open>\<open>Base base{42}\<close>, \<open>Derived derived{50, 0}\<close> and their counterparts.\<close>

definition base42 :: obj where
  "base42 = \<lparr> dyn = Base_ty, members = [Ptr (Some 42)] \<rparr>"

definition derived50 :: obj where
  "derived50 = \<lparr> dyn = Derived_ty, members = [Ptr (Some 50), Ptr (Some 0)] \<rparr>"

definition base2_42 :: obj where
  "base2_42 = \<lparr> dyn = Base2_ty, members = [Ptr (Some 42)] \<rparr>"

definition derived2_50 :: obj where
  "derived2_50 = \<lparr> dyn = Derived2_ty, members = [Ptr (Some 50), Ptr (Some 0)] \<rparr>"

text \<open>
  An \<open>Inherits2\<close>, a \<open>NoticeableDestructor\<close> whose \<open>i\<close> owns an \<open>int\<close>, and a
  \<open>SecondBase\<close>.
\<close>

definition second7 :: obj where
  "second7 = \<lparr> dyn = SecondBase_ty, members = [Val 7, Ptr (Some 8)] \<rparr>"

definition inherits2_12 :: obj where
  "inherits2_12 = \<lparr> dyn = Inherits2_ty, members = [Ptr (Some 1), Ptr (Some 2)] \<rparr>"

definition noticeable5 :: obj where
  "noticeable5 = \<lparr> dyn = NoticeableDestructor_ty, members = [Ptr (Some 5), Val 0] \<rparr>"

text \<open>
  Two containers \<open>a\<close> (at 0, a \<open>Base\<close>) and \<open>b\<close> (at 1, a \<open>Derived\<close>), as in the tests,
  and \<open>a\<close> alone.
\<close>

definition two_polys :: state where
  "two_polys =
     \<lparr> movers = [0 \<mapsto> UniversalMover Base_ty, 1 \<mapsto> UniversalMover Derived_ty],
       objs = [storage 0 \<mapsto> base42, storage 1 \<mapsto> derived50],
       trace = [] \<rparr>"


text \<open>
  The same with a \<open>NoticeableDestructor\<close> in \<open>a\<close> whose \<open>i\<close> was given an \<open>int\<close> through
  \<open>get()\<close>, and a \<open>Base\<close> in \<open>b\<close>.
\<close>

definition noticeable_polys :: state where
  "noticeable_polys =
     \<lparr> movers = [0 \<mapsto> UniversalMover NoticeableDestructor_ty, 1 \<mapsto> UniversalMover Base_ty],
       objs = [storage 0 \<mapsto> noticeable5, storage 1 \<mapsto> base42],
       trace = [] \<rparr>"

definition two_polys2 :: state where
  "two_polys2 =
     \<lparr> movers = Map.empty,
       objs = [storage 0 \<mapsto> base2_42, storage 1 \<mapsto> derived2_50],
       trace = [] \<rparr>"

section \<open>Facts used throughout\<close>

lemmas fixture_defs = class_ty_def Base_ty_def Derived_ty_def BigDerived_ty_def MayThrow_ty_def
  NoticeableDestructor_ty_def SecondBase_ty_def Storage_ty_def PolyBase_def Base2_ty_def Derived2_ty_def MayThrow2_ty_def Inherits2_ty_def
  PolyBase2_def

lemmas trait_defs = is_storable_def is_movable_def is_base_of_def binds_to_def can_handle_def
  class_static_asserts_def UniversalMover_ty_def VirtualMover_ty_def

lemmas step_defs = emit_def mover_member_def MoverStorage_of_def derive_mover_def init_mover_def
  init_mover_from_def copy_mover_def copy_mover_from_def swap_mover_def placement_new_def
  destroy_def relocate_def

lemma PolyBase_compiles:
  "class_static_asserts PolyBase" "\<not> is_empty (Mover PolyBase)"
  "can_handle PolyBase Base_ty" "can_handle PolyBase Derived_ty"
  by (simp_all add: fixture_defs trait_defs)

lemma PolyBase2_compiles:
  "class_static_asserts PolyBase2" "is_empty (Mover PolyBase2)"
  "can_handle PolyBase2 Base2_ty" "can_handle PolyBase2 Derived2_ty"
  by (simp_all add: fixture_defs trait_defs)


lemma nfields_fixtures:
  "nfields Base_ty = 1" "nfields Derived_ty = 2" "nfields Base2_ty = 1" "nfields Derived2_ty = 2"
  by (simp_all add: fixture_defs)

lemma final_overrider_self: "overrides_Method D \<Longrightarrow> final_overrider ct D = Some D"
  by (simp add: final_overrider_def)




section \<open>The compile-time checks\<close>

text \<open>
  C1. \<open>is_storable<T, S>\<close> holds exactly when \<open>T\<close> is no larger than \<open>S\<close>, the alignment
  of \<open>S\<close> is a multiple of the alignment of \<open>T\<close>, and \<open>S\<close> is trivial; \<open>can_handle<T>\<close> is
  its three other conditions together with exactly this one, taken at the container's
  storage type.
\<close>

theorem is_storable_iff_fits:
  "(is_storable T S \<longleftrightarrow> sizeof T \<le> sizeof S \<and> alignof T dvd alignof S \<and> is_trivial S) \<and>
   (can_handle I T \<longleftrightarrow>
      is_nothrow_move_constructible T \<and> is_base_of (Base I) T \<and>
      is_movable (Base I) (Mover I) T \<and>
      (sizeof T \<le> sizeof (Storage I) \<and> alignof T dvd alignof (Storage I) \<and>
       is_trivial (Storage I)))"
  by (simp add: is_storable_def can_handle_def dvd_eq_mod_eq_0)

text \<open>
  \<open>Derived\<close> fits \<open>Storage\<close> and is admitted; \<open>BigDerived\<close> is too large and is not
  (\<open>PolyBase::can_handle_v<BigDerived> == false\<close> in the tests).
\<close>

theorem is_storable_iff_fits_witness:
  "is_storable Derived_ty Storage_ty \<and> \<not> is_storable BigDerived_ty Storage_ty \<and>
   can_handle PolyBase Derived_ty \<and> \<not> can_handle PolyBase BigDerived_ty"
  using is_storable_iff_fits [where T = Derived_ty and S = Storage_ty and I = PolyBase]
        is_storable_iff_fits [where T = BigDerived_ty and S = Storage_ty and I = PolyBase]
  by (simp add: fixture_defs trait_defs)

text \<open>
  C5, as stated, puts the requirement that the candidate be nothrow move constructible
  into the movability check of a mover with state. \<open>is_movable\<close> does not look at the
  candidate's move constructor: with the universal mover of \<open>Base\<close>, a class derived
  from \<open>Base\<close> whose move constructor may throw is movable.
\<close>

theorem is_movable_ignores_move_constructor:
  "\<not> is_empty (UniversalMover_ty Base_ty) \<and>
   is_movable Base_ty (UniversalMover_ty Base_ty) MayThrow_ty \<and>
   \<not> is_nothrow_move_constructible MayThrow_ty"
  by (simp add: fixture_defs trait_defs)

text \<open>
  C5, amended. For a mover with state, \<open>is_movable\<close> asks, beyond what it asks of every
  mover, that the mover be nothrow copy-assignable and nothrow constructible from
  \<open>A const *\<close>; for an empty mover it asks neither. That the candidate be nothrow move
  constructible is asked by \<open>can_handle\<close>, next to \<open>is_movable\<close>, for every mover.
\<close>

theorem is_movable_by_mover_kind:
  "(\<not> is_empty M \<longrightarrow>
      (is_movable T M A \<longleftrightarrow>
         mover_nothrow_destructible M \<and> is_nothrow_invocable M T \<and> is_base_of T A \<and>
         is_nothrow_copy_assignable M \<and> is_nothrow_constructible_from M A)) \<and>
   (is_empty M \<longrightarrow>
      (is_movable T M A \<longleftrightarrow>
         mover_nothrow_destructible M \<and> is_nothrow_invocable M T \<and> is_base_of T A)) \<and>
   (can_handle I A \<longrightarrow>
      is_nothrow_move_constructible A \<and> is_movable (Base I) (Mover I) A)"
  by (auto simp: is_movable_def can_handle_def)

theorem is_movable_by_mover_kind_witness:
  "\<not> is_empty (UniversalMover_ty Base_ty) \<and>
   is_movable Base_ty (UniversalMover_ty Base_ty) Derived_ty \<and>
   is_nothrow_copy_assignable (UniversalMover_ty Base_ty) \<and>
   is_nothrow_constructible_from (UniversalMover_ty Base_ty) Derived_ty \<and>
   is_empty (VirtualMover_ty Base2_ty) \<and>
   is_movable Base2_ty (VirtualMover_ty Base2_ty) Derived2_ty \<and>
   \<not> is_nothrow_constructible_from (VirtualMover_ty Base2_ty) Derived2_ty \<and>
   can_handle PolyBase Derived_ty \<and> is_nothrow_move_constructible Derived_ty"
  using is_movable_by_mover_kind
          [where M = "UniversalMover_ty Base_ty" and T = Base_ty and A = Derived_ty
             and I = PolyBase]
        is_movable_by_mover_kind
          [where M = "VirtualMover_ty Base2_ty" and T = Base2_ty and A = Derived2_ty
             and I = PolyBase]
  by (simp add: fixture_defs trait_defs)

text \<open>
  C10. Whatever the mover, \<open>can_handle_v<T>\<close> is true only if \<open>T\<close> is nothrow move
  constructible; in particular a container with a \<open>VirtualMover\<close>, which relocates
  through the class's own virtual method and never names the move constructor, rejects
  a class that is not.
\<close>

theorem can_handle_needs_nothrow_move:
  "(can_handle I T \<longrightarrow> is_nothrow_move_constructible T) \<and>
   (\<not> is_nothrow_move_constructible T \<longrightarrow>
      \<not> can_handle \<lparr> Storage = S, Base = B, Mover = VirtualMover_ty B \<rparr> T)"
  by (simp add: can_handle_def)

text \<open>
  With the \<open>VirtualMover\<close> container of the tests: \<open>Derived2\<close> is admitted and is nothrow
  move constructible; \<open>MayThrow2\<close> overrides the relocation method, is movable and
  storable, and is rejected.
\<close>

theorem can_handle_needs_nothrow_move_witness:
  "can_handle PolyBase2 Derived2_ty \<and> is_nothrow_move_constructible Derived2_ty \<and>
   \<not> is_nothrow_move_constructible MayThrow2_ty \<and> overrides_Method MayThrow2_ty \<and>
   is_movable Base2_ty (VirtualMover_ty Base2_ty) MayThrow2_ty \<and>
   is_storable MayThrow2_ty Storage_ty \<and>
   \<not> can_handle \<lparr> Storage = Storage_ty, Base = Base2_ty, Mover = VirtualMover_ty Base2_ty \<rparr>
        MayThrow2_ty"
  using can_handle_needs_nothrow_move [where I = PolyBase2 and T = Derived2_ty]
        can_handle_needs_nothrow_move
          [where T = MayThrow2_ty and S = Storage_ty and B = Base2_ty and I = PolyBase2]
  by (simp add: fixture_defs trait_defs)

section \<open>Relocation between containers\<close>

subsection \<open>A container whose mover relocates its value exactly\<close>

lemma transfers_all_implicit: "move_ctor T = implicit_move \<Longrightarrow> transfers_all T"
  by (simp add: transfers_all_def implicit_move_def)

lemma transfers_allD:
  "transfers_all T \<Longrightarrow> length ms = nfields T \<Longrightarrow> fst (move_ctor T ms) = ms"
  by (simp add: transfers_all_def)

lemma move_construct_dyn:
  "dyn (fst (move_construct A x)) = A" "dyn (snd (move_construct A x)) = dyn x"
  by (simp_all add: move_construct_def)

lemma move_construct_exact:
  "length (members x) = nfields (dyn x) \<Longrightarrow> transfers_all (dyn x) \<Longrightarrow>
     fst (move_construct (dyn x) x) = x"
  by (simp add: move_construct_def transfers_allD)

lemma call_mover_exact:
  assumes "m = UniversalMover (dyn x) \<or> (m = VirtualMover \<and> overrides_Method (dyn x))"
  shows "call_mover ct m x = Inr (move_construct (dyn x) x)"
  using assms by (auto simp: call_mover_def binds_to_def final_overrider_self)


lemma fits_exactly_dynamic_type: "fits_exactly I s a x \<Longrightarrow> dynamic_type a s = Some (dyn x)"
  by (simp add: fits_exactly_def dynamic_type_def)

lemma holds_get: "holds I s a x \<Longrightarrow> get I a s = Inr x"
  by (simp add: holds_def fits_exactly_def get_def)

lemma holds_dynamic_type: "holds I s a x \<Longrightarrow> dynamic_type a s = Some (dyn x)"
  by (auto simp: holds_def fits_exactly_dynamic_type)

lemma holds_mover_member:
  "holds I s a x \<Longrightarrow> holds I s' b x \<Longrightarrow> mover_member I s' b = mover_member I s a"
  by (auto simp: holds_def fits_exactly_def mover_member_def split: if_splits)

lemma holds_consistent: "holds I s a x \<Longrightarrow> consistent I ct s a"
  by (auto simp: holds_def fits_exactly_def consistent_def mover_fits_def final_overrider_self
      split: if_splits)

lemma relocate_exact:
  assumes "mover_member I s c = Some m" and "objs s src = Some x"
    and "m = UniversalMover (dyn x) \<or> (m = VirtualMover \<and> overrides_Method (dyn x))"
  shows "relocate I ct c src dst s =
     Inr (s \<lparr> objs := (objs s)(src \<mapsto> snd (move_construct (dyn x) x),
                               dst \<mapsto> fst (move_construct (dyn x) x)),
            trace := trace s @ [Relocate src dst] \<rparr>)"
  using assms(1,2) call_mover_exact [OF assms(3), of ct]
  by (simp add: relocate_def emit_def split: prod.splits)




lemma swap_exchanges:
  assumes sa: "class_static_asserts I" and a: "holds I s a x" and b: "holds I s b y"
    and ne: "a \<noteq> b"
  shows "\<exists>s'. swap I ct a b s = Inr s' \<and> holds I s' a y \<and> holds I s' b x \<and>
           objs s' tmp = None \<and>
           trace s' = trace s @ [Relocate (storage a) tmp, Relocate (storage b) (storage a),
                                 Relocate tmp (storage b), Dtor tmp (dyn x), SwapMover a b]"
proof -
  have x1: "fst (move_construct (dyn x) x) = x" and y1: "fst (move_construct (dyn y) y) = y"
    using a b by (simp_all add: holds_def move_construct_exact)
  have c1: "call_mover ct (if is_empty (Mover I) then VirtualMover else UniversalMover (dyn x)) x
      = Inr (x, snd (move_construct (dyn x) x))"
    using a x1 call_mover_exact [of _ x ct]
    by (auto simp: holds_def fits_exactly_def prod_eq_iff)
  have c2: "call_mover ct (if is_empty (Mover I) then VirtualMover else UniversalMover (dyn y)) y
      = Inr (y, snd (move_construct (dyn y) y))"
    using b y1 call_mover_exact [of _ y ct]
    by (auto simp: holds_def fits_exactly_def prod_eq_iff)
  show ?thesis
    using sa a b ne c1 c2
    by (cases "is_empty (Mover I)")
       (auto simp: swap_def step_defs holds_def fits_exactly_def move_construct_dyn
          case_prod_beta)
qed

lemma holds_two_polys:
  "holds PolyBase two_polys 0 base42" "holds PolyBase two_polys 1 derived50"
  by (simp_all add: holds_def fits_exactly_def transfers_all_implicit reinterpretable_def
      two_polys_def base42_def derived50_def PolyBase_def UniversalMover_ty_def
      Base_ty_def Derived_ty_def class_ty_def)

lemma holds_two_polys2:
  "holds PolyBase2 two_polys2 0 base2_42" "holds PolyBase2 two_polys2 1 derived2_50"
  by (simp_all add: holds_def fits_exactly_def transfers_all_implicit reinterpretable_def
      two_polys2_def base2_42_def derived2_50_def PolyBase2_def VirtualMover_ty_def
      Base2_ty_def Derived2_ty_def class_ty_def)

lemma fixtures_admitted:
  "can_handle PolyBase2 Inherits2_ty" "can_handle PolyBase NoticeableDestructor_ty"
  "can_handle PolyBase SecondBase_ty"
  by (simp_all add: fixture_defs trait_defs)

lemma fixtures_differ:
  "Derived2_ty \<noteq> Inherits2_ty" "Base2_ty \<noteq> Inherits2_ty"
  by (simp_all add: fixture_defs)

lemma implicit_fixtures:
  "move_ctor Base_ty = implicit_move" "move_ctor Derived_ty = implicit_move"
  "move_ctor Base2_ty = implicit_move" "move_ctor Derived2_ty = implicit_move"
  "move_ctor Inherits2_ty = implicit_move"
  by (simp_all add: fixture_defs)

lemma final_overrider_fixtures:
  "final_overrider classes Inherits2_ty = Some Derived2_ty"
  "final_overrider classes Derived2_ty = Some Derived2_ty"
  "final_overrider classes Base2_ty = Some Base2_ty"
  by (simp_all add: final_overrider_def classes_def List.map_filter_def fixture_defs)


subsection \<open>Dynamic type\<close>




subsection \<open>Slicing\<close>

text \<open>
  C6. A universal mover bound to \<open>B\<close>, called on an object of a class derived from \<open>B\<close>,
  constructs a \<open>B\<close> from the \<open>B\<close> members alone: the destination has dynamic type \<open>B\<close>
  and the members the move constructor of \<open>B\<close> makes of those, and the members the
  derived class adds stay in the source as they were. With the implicit move constructor
  the destination has exactly the \<open>B\<close> members of the source, which are left moved-from.
\<close>

theorem universal_mover_slices:
  assumes "is_base_of B (dyn d)" and "nfields B \<le> length (members d)"
  shows "\<exists>new old. call_mover ct (UniversalMover B) d = Inr (new, old) \<and>
           dyn new = B \<and>
           members new = fst (move_ctor B (take (nfields B) (members d))) \<and>
           dyn old = dyn d \<and>
           members old = snd (move_ctor B (take (nfields B) (members d)))
                           @ drop (nfields B) (members d) \<and>
           (move_ctor B = implicit_move \<longrightarrow>
              members new = take (nfields B) (members d) \<and>
              take (nfields B) (members old) = map moved_from (take (nfields B) (members d)) \<and>
              drop (nfields B) (members old) = drop (nfields B) (members d))"
  using assms by (simp add: call_mover_def binds_to_def move_construct_def implicit_move_def)

text \<open>
  The test "UniversalMover": \<open>derived{50, 0}\<close> moved by a mover made for \<open>Base\<close> leaves
  \<open>derived.i == nullptr\<close> and \<open>derived.f != nullptr\<close>, and the destination is a \<open>Base\<close>
  with \<open>*i == 50\<close>.
\<close>

theorem universal_mover_slices_witness:
  "is_base_of Base_ty (dyn derived50) \<and> nfields Base_ty \<le> length (members derived50) \<and>
   move_ctor Base_ty = implicit_move \<and>
   call_mover classes (UniversalMover Base_ty) derived50 =
     Inr (\<lparr> dyn = Base_ty, members = [Ptr (Some 50)] \<rparr>,
          \<lparr> dyn = Derived_ty, members = [Ptr None, Ptr (Some 0)] \<rparr>)"
  using universal_mover_slices [of Base_ty derived50 classes]
  by (simp add: derived50_def fixture_defs trait_defs call_mover_def move_construct_def
      implicit_move_def)

subsection \<open>Swap\<close>

lemma call_mover_fixtures:
  "call_mover classes VirtualMover inherits2_12 =
     Inr (\<lparr> dyn = Derived2_ty, members = [Ptr (Some 1), Ptr (Some 2)] \<rparr>,
          \<lparr> dyn = Inherits2_ty, members = [Ptr None, Ptr None] \<rparr>)"
  "call_mover classes (UniversalMover NoticeableDestructor_ty) noticeable5 =
     Inr (\<lparr> dyn = NoticeableDestructor_ty, members = [Ptr None, Val 0] \<rparr>, noticeable5)"
  by (simp_all add: call_mover_def binds_to_def move_construct_def final_overrider_fixtures
      inherits2_12_def noticeable5_def nfields_fixtures implicit_fixtures implicit_move_def
      NoticeableDestructor_ty_def class_ty_def)

text \<open>
  C7, as stated, has the two values exchanged whatever the two containers hold. With a
  \<open>VirtualMover\<close>, an \<open>Inherits2\<close> in \<open>a\<close> arrives in \<open>b\<close> as a \<open>Derived2\<close>. With the
  universal mover, a \<open>NoticeableDestructor\<close> in \<open>a\<close> whose \<open>i\<close> owns an \<open>int\<close> arrives in
  \<open>b\<close> with \<open>i == nullptr\<close>: relocation runs the move constructor of the class, and this
  one does not move the \<open>Base\<close> part.
\<close>

theorem swap_does_not_exchange_every_value:
  "can_handle PolyBase2 Inherits2_ty \<and> can_handle PolyBase2 Base2_ty \<and>
   get_after PolyBase2 0
     (run PolyBase2 classes
        [Construct_value 0 Inherits2_ty inherits2_12, Construct_value 1 Base2_ty base2_42]
        empty_state)
     = Inr inherits2_12 \<and>
   get_after PolyBase2 1
     (run PolyBase2 classes
        [Construct_value 0 Inherits2_ty inherits2_12, Construct_value 1 Base2_ty base2_42,
         Swap 0 1] empty_state)
     = Inr \<lparr> dyn = Derived2_ty, members = [Ptr (Some 1), Ptr (Some 2)] \<rparr> \<and>
   dyn inherits2_12 \<noteq> Derived2_ty \<and>
   can_handle PolyBase NoticeableDestructor_ty \<and>
   get PolyBase 0 noticeable_polys = Inr noticeable5 \<and>
   members noticeable5 = [Ptr (Some 5), Val 0] \<and>
   get_after PolyBase 1 (swap PolyBase classes 0 1 noticeable_polys)
     = Inr \<lparr> dyn = NoticeableDestructor_ty, members = [Ptr None, Val 0] \<rparr>"
proof -
  have 1: "fst (move_construct Inherits2_ty inherits2_12) = inherits2_12"
    "fst (move_construct Base2_ty base2_42) = base2_42"
    by (simp_all add: move_construct_def implicit_fixtures implicit_move_def inherits2_12_def
        base2_42_def Inherits2_ty_def class_ty_def nfields_fixtures)
  have 2: "call_mover classes VirtualMover base2_42 =
      Inr (base2_42, \<lparr> dyn = Base2_ty, members = [Ptr None] \<rparr>)"
    by (simp add: call_mover_def final_overrider_fixtures move_construct_def implicit_fixtures
        implicit_move_def base2_42_def nfields_fixtures)
  have 3: "call_mover classes VirtualMover
      \<lparr> dyn = Derived2_ty, members = [Ptr (Some 1), Ptr (Some 2)] \<rparr> =
      Inr (\<lparr> dyn = Derived2_ty, members = [Ptr (Some 1), Ptr (Some 2)] \<rparr>,
           \<lparr> dyn = Derived2_ty, members = [Ptr None, Ptr None] \<rparr>)"
    by (simp add: call_mover_def final_overrider_fixtures move_construct_def implicit_fixtures
        implicit_move_def nfields_fixtures)
  have 4: "call_mover classes (UniversalMover Base_ty) base42 =
      Inr (base42, \<lparr> dyn = Base_ty, members = [Ptr None] \<rparr>)"
    by (simp add: call_mover_def binds_to_def move_construct_def implicit_fixtures
        implicit_move_def base42_def nfields_fixtures)
  have 5: "call_mover classes (UniversalMover NoticeableDestructor_ty)
      \<lparr> dyn = NoticeableDestructor_ty, members = [Ptr None, Val 0] \<rparr> =
      Inr (\<lparr> dyn = NoticeableDestructor_ty, members = [Ptr None, Val 0] \<rparr>,
           \<lparr> dyn = NoticeableDestructor_ty, members = [Ptr None, Val 0] \<rparr>)"
    by (simp add: call_mover_def binds_to_def move_construct_def NoticeableDestructor_ty_def
        class_ty_def)
  have r: "reinterpretable PolyBase2 Inherits2_ty" "reinterpretable PolyBase2 Derived2_ty"
    "reinterpretable PolyBase NoticeableDestructor_ty"
    by (simp_all add: reinterpretable_def fixture_defs)
  have d: "dyn inherits2_12 = Inherits2_ty" "dyn noticeable5 = NoticeableDestructor_ty"
    "dyn base2_42 = Base2_ty" "dyn base42 = Base_ty"
    "members noticeable5 = [Ptr (Some 5), Val 0]"
    by (simp_all add: inherits2_12_def noticeable5_def base2_42_def base42_def)
  show ?thesis
    using fixtures_differ
    by (simp add: PolyBase2_compiles PolyBase_compiles fixtures_admitted 1 2 3 4 5 r d
        call_mover_fixtures BoundedPoly_value_def swap_def step_defs get_after_def get_def
        empty_state_def noticeable_polys_def)
qed

text \<open>
  C7, amended. For two different containers that hold \<open>x\<close> and \<open>y\<close>, each with a mover
  that relocates its value as an object of its own class, the classes having move
  constructors that transfer every member: \<open>a.swap(b)\<close> returns with \<open>a\<close> holding \<open>y\<close>
  and \<open>b\<close> holding \<open>x\<close>, each with the other's mover, and both again consistent, whatever
  the two classes are. It goes through the one buffer \<open>tmp\<close>, which is empty
  afterwards, in this order: \<open>a\<close> to \<open>tmp\<close>, \<open>b\<close> to \<open>a\<close>, \<open>tmp\<close> to \<open>b\<close>, destructor of
  \<open>tmp\<close>, swap of the movers. A swap of a container with itself is left out: its second
  statement relocates the value onto itself, where the mover constructs over the
  object it reads.
\<close>

theorem swap_exchanges_values_and_movers:
  assumes "class_static_asserts I" and "holds I s this x" and "holds I s other y"
    and "this \<noteq> other"
  shows "\<exists>s'. swap I ct this other s = Inr s' \<and>
           holds I s' this y \<and> holds I s' other x \<and>
           get I this s' = Inr y \<and> get I other s' = Inr x \<and>
           mover_member I s' this = mover_member I s other \<and>
           mover_member I s' other = mover_member I s this \<and>
           consistent I ct s' this \<and> consistent I ct s' other \<and>
           objs s' tmp = None \<and>
           trace s' = trace s @
             [Relocate (storage this) tmp, Relocate (storage other) (storage this),
              Relocate tmp (storage other), Dtor tmp (dyn x), SwapMover this other]"
proof -
  from swap_exchanges [OF assms, of ct] obtain s' where
    s': "swap I ct this other s = Inr s'" "holds I s' this y" "holds I s' other x"
      "objs s' tmp = None"
      "trace s' = trace s @
         [Relocate (storage this) tmp, Relocate (storage other) (storage this),
          Relocate tmp (storage other), Dtor tmp (dyn x), SwapMover this other]"
    by blast
  show ?thesis
    using s' holds_mover_member [OF assms(3) s'(2)] holds_mover_member [OF assms(2) s'(3)]
      holds_consistent [OF s'(2), of ct] holds_consistent [OF s'(3), of ct]
      holds_get [OF s'(2)] holds_get [OF s'(3)]
    by simp
qed

text \<open>\<open>a.swap(b)\<close> of the tests, with a \<open>Base\<close> and a \<open>Derived\<close>, under both movers.\<close>

theorem swap_exchanges_values_and_movers_witness:
  "class_static_asserts PolyBase \<and> holds PolyBase two_polys 0 base42 \<and>
   holds PolyBase two_polys 1 derived50 \<and> (0::addr) \<noteq> 1 \<and>
   (\<exists>s'. swap PolyBase classes 0 1 two_polys = Inr s' \<and>
      get PolyBase 0 s' = Inr derived50 \<and> get PolyBase 1 s' = Inr base42 \<and>
      mover_member PolyBase s' 0 = Some (UniversalMover Derived_ty) \<and>
      mover_member PolyBase s' 1 = Some (UniversalMover Base_ty) \<and>
      trace s' = [Relocate (storage 0) tmp, Relocate (storage 1) (storage 0),
                  Relocate tmp (storage 1), Dtor tmp Base_ty, SwapMover 0 1]) \<and>
   class_static_asserts PolyBase2 \<and> holds PolyBase2 two_polys2 0 base2_42 \<and>
   holds PolyBase2 two_polys2 1 derived2_50 \<and>
   (\<exists>s'. swap PolyBase2 classes 0 1 two_polys2 = Inr s' \<and>
      get PolyBase2 0 s' = Inr derived2_50 \<and> get PolyBase2 1 s' = Inr base2_42)"
proof -
  have ne: "(0::addr) \<noteq> 1" by simp
  have m: "mover_member PolyBase two_polys 0 = Some (UniversalMover Base_ty)"
    "mover_member PolyBase two_polys 1 = Some (UniversalMover Derived_ty)"
    by (simp_all add: mover_member_def two_polys_def PolyBase_compiles)
  have t: "trace two_polys = []" "dyn base42 = Base_ty"
    by (simp_all add: two_polys_def base42_def)
  from swap_exchanges_values_and_movers
         [OF PolyBase_compiles(1) holds_two_polys(1) holds_two_polys(2) ne, of classes]
  have 1: "\<exists>s'. swap PolyBase classes 0 1 two_polys = Inr s' \<and>
      get PolyBase 0 s' = Inr derived50 \<and> get PolyBase 1 s' = Inr base42 \<and>
      mover_member PolyBase s' 0 = Some (UniversalMover Derived_ty) \<and>
      mover_member PolyBase s' 1 = Some (UniversalMover Base_ty) \<and>
      trace s' = [Relocate (storage 0) tmp, Relocate (storage 1) (storage 0),
                  Relocate tmp (storage 1), Dtor tmp Base_ty, SwapMover 0 1]"
    using m t by auto
  from swap_exchanges_values_and_movers
         [OF PolyBase2_compiles(1) holds_two_polys2(1) holds_two_polys2(2) ne, of classes]
  have 2: "\<exists>s'. swap PolyBase2 classes 0 1 two_polys2 = Inr s' \<and>
      get PolyBase2 0 s' = Inr derived2_50 \<and> get PolyBase2 1 s' = Inr base2_42"
    by auto
  show ?thesis
    using 1 2 PolyBase_compiles(1) PolyBase2_compiles(1) holds_two_polys holds_two_polys2
    by simp
qed

text \<open>
  C8, as stated, has two swaps restore every pair of containers. With a \<open>VirtualMover\<close>,
  \<open>a\<close> holds an \<open>Inherits2\<close> before and a \<open>Derived2\<close> after the two swaps. With the
  universal mover, the \<open>NoticeableDestructor\<close> of \<open>a\<close> comes back with \<open>i == nullptr\<close>.
\<close>

theorem swap_twice_does_not_restore_every_value:
  "can_handle PolyBase2 Inherits2_ty \<and> can_handle PolyBase2 Base2_ty \<and>
   dynamic_type_after 0
     (run PolyBase2 classes
        [Construct_value 0 Inherits2_ty inherits2_12, Construct_value 1 Base2_ty base2_42]
        empty_state)
     = Some Inherits2_ty \<and>
   dynamic_type_after 0
     (run PolyBase2 classes
        [Construct_value 0 Inherits2_ty inherits2_12, Construct_value 1 Base2_ty base2_42,
         Swap 0 1, Swap 0 1] empty_state)
     = Some Derived2_ty \<and>
   Derived2_ty \<noteq> Inherits2_ty \<and>
   can_handle PolyBase NoticeableDestructor_ty \<and>
   get PolyBase 0 noticeable_polys = Inr noticeable5 \<and>
   members noticeable5 = [Ptr (Some 5), Val 0] \<and>
   get_after PolyBase 0 (run PolyBase classes [Swap 0 1, Swap 0 1] noticeable_polys)
     = Inr \<lparr> dyn = NoticeableDestructor_ty, members = [Ptr None, Val 0] \<rparr>"
proof -
  have 1: "fst (move_construct Inherits2_ty inherits2_12) = inherits2_12"
    "fst (move_construct Base2_ty base2_42) = base2_42"
    by (simp_all add: move_construct_def implicit_fixtures implicit_move_def inherits2_12_def
        base2_42_def Inherits2_ty_def class_ty_def nfields_fixtures)
  have 2: "call_mover classes VirtualMover base2_42 =
      Inr (base2_42, \<lparr> dyn = Base2_ty, members = [Ptr None] \<rparr>)"
    by (simp add: call_mover_def final_overrider_fixtures move_construct_def implicit_fixtures
        implicit_move_def base2_42_def nfields_fixtures)
  have 3: "call_mover classes VirtualMover
      \<lparr> dyn = Derived2_ty, members = [Ptr (Some 1), Ptr (Some 2)] \<rparr> =
      Inr (\<lparr> dyn = Derived2_ty, members = [Ptr (Some 1), Ptr (Some 2)] \<rparr>,
           \<lparr> dyn = Derived2_ty, members = [Ptr None, Ptr None] \<rparr>)"
    by (simp add: call_mover_def final_overrider_fixtures move_construct_def implicit_fixtures
        implicit_move_def nfields_fixtures)
  have 4: "call_mover classes (UniversalMover Base_ty) base42 =
      Inr (base42, \<lparr> dyn = Base_ty, members = [Ptr None] \<rparr>)"
    by (simp add: call_mover_def binds_to_def move_construct_def implicit_fixtures
        implicit_move_def base42_def nfields_fixtures)
  have 5: "call_mover classes (UniversalMover NoticeableDestructor_ty)
      \<lparr> dyn = NoticeableDestructor_ty, members = [Ptr None, Val 0] \<rparr> =
      Inr (\<lparr> dyn = NoticeableDestructor_ty, members = [Ptr None, Val 0] \<rparr>,
           \<lparr> dyn = NoticeableDestructor_ty, members = [Ptr None, Val 0] \<rparr>)"
    by (simp add: call_mover_def binds_to_def move_construct_def NoticeableDestructor_ty_def
        class_ty_def)
  have r: "reinterpretable PolyBase NoticeableDestructor_ty"
    by (simp add: reinterpretable_def fixture_defs)
  have d: "dyn inherits2_12 = Inherits2_ty" "dyn noticeable5 = NoticeableDestructor_ty"
    "dyn base2_42 = Base2_ty" "dyn base42 = Base_ty"
    "members noticeable5 = [Ptr (Some 5), Val 0]"
    by (simp_all add: inherits2_12_def noticeable5_def base2_42_def base42_def)
  show ?thesis
    using fixtures_differ
    by (simp add: PolyBase2_compiles PolyBase_compiles fixtures_admitted 1 2 3 4 5 r d
        call_mover_fixtures BoundedPoly_value_def swap_def step_defs get_after_def get_def
        dynamic_type_after_def dynamic_type_def empty_state_def noticeable_polys_def)
qed

text \<open>
  C8, amended. For two different containers, each with a mover that relocates its value
  as an object of its own class, the classes having move constructors that transfer
  every member: two swaps in a row give each of them back the value, and so the dynamic
  type, and the mover it had.
\<close>

theorem swap_twice_restores:
  assumes sa: "class_static_asserts I" and a: "holds I s a x" and b: "holds I s b y"
    and ne: "a \<noteq> b"
  shows "\<exists>s1 s2. swap I ct a b s = Inr s1 \<and> swap I ct a b s1 = Inr s2 \<and>
           get I a s2 = Inr x \<and> get I b s2 = Inr y \<and>
           dynamic_type a s2 = dynamic_type a s \<and> dynamic_type b s2 = dynamic_type b s \<and>
           mover_member I s2 a = mover_member I s a \<and>
           mover_member I s2 b = mover_member I s b"
proof -
  from swap_exchanges [OF sa a b ne, of ct] obtain s1 where
    s1: "swap I ct a b s = Inr s1" "holds I s1 a y" "holds I s1 b x" by blast
  from swap_exchanges [OF sa s1(2,3) ne, of ct] obtain s2 where
    s2: "swap I ct a b s1 = Inr s2" "holds I s2 a x" "holds I s2 b y" by blast
  show ?thesis
    using s1(1) s2(1) holds_get [OF s2(2)] holds_get [OF s2(3)]
      holds_dynamic_type [OF s2(2)] holds_dynamic_type [OF s2(3)]
      holds_dynamic_type [OF a] holds_dynamic_type [OF b]
      holds_mover_member [OF a s2(2)] holds_mover_member [OF b s2(3)]
    by simp
qed

theorem swap_twice_restores_witness:
  "class_static_asserts PolyBase \<and> holds PolyBase two_polys 0 base42 \<and>
   holds PolyBase two_polys 1 derived50 \<and> (0::addr) \<noteq> 1 \<and>
   (\<exists>s1 s2. swap PolyBase classes 0 1 two_polys = Inr s1 \<and>
      swap PolyBase classes 0 1 s1 = Inr s2 \<and>
      get PolyBase 0 s2 = Inr base42 \<and> get PolyBase 1 s2 = Inr derived50 \<and>
      dynamic_type 0 s2 = dynamic_type 0 two_polys \<and>
      dynamic_type 1 s2 = dynamic_type 1 two_polys \<and>
      mover_member PolyBase s2 0 = mover_member PolyBase two_polys 0 \<and>
      mover_member PolyBase s2 1 = mover_member PolyBase two_polys 1)"
proof -
  have ne: "(0::addr) \<noteq> 1" by simp
  show ?thesis
    using swap_twice_restores [OF PolyBase_compiles(1) holds_two_polys ne, of classes]
      PolyBase_compiles(1) holds_two_polys
    by simp
qed

section \<open>Construction and access\<close>

text \<open>
  C9, as stated, has the container hold what it was constructed from, for every admitted
  class. \<open>NoticeableDestructor\<close> is admitted, and a container constructed from one whose
  \<open>i\<close> owns an \<open>int\<close> holds one with \<open>i == nullptr\<close>: line 136 runs the move constructor
  of the class. \<open>SecondBase\<close> is admitted too, and \<open>get()\<close> on a container constructed
  from one does not refer to its \<open>Base\<close> subobject, which lies at offset 8.
\<close>

theorem construction_runs_the_move_constructor:
  "class_static_asserts PolyBase \<and> can_handle PolyBase NoticeableDestructor_ty \<and>
   dyn noticeable5 = NoticeableDestructor_ty \<and>
   members noticeable5 = [Ptr (Some 5), Val 0] \<and>
   get_after PolyBase 0
     (BoundedPoly_value PolyBase 0 NoticeableDestructor_ty noticeable5 empty_state)
     = Inr \<lparr> dyn = NoticeableDestructor_ty, members = [Ptr None, Val 0] \<rparr> \<and>
   can_handle PolyBase SecondBase_ty \<and> dyn second7 = SecondBase_ty \<and>
   get_after PolyBase 0 (BoundedPoly_value PolyBase 0 SecondBase_ty second7 empty_state)
     = Inl UB"
proof -
  have 1: "fst (move_construct NoticeableDestructor_ty noticeable5) =
      \<lparr> dyn = NoticeableDestructor_ty, members = [Ptr None, Val 0] \<rparr>"
    by (simp add: move_construct_def noticeable5_def NoticeableDestructor_ty_def class_ty_def)
  have 2: "dyn (fst (move_construct SecondBase_ty second7)) = SecondBase_ty"
    by (simp add: move_construct_dyn)
  have r: "reinterpretable PolyBase NoticeableDestructor_ty"
    "\<not> reinterpretable PolyBase SecondBase_ty"
    by (simp_all add: reinterpretable_def fixture_defs)
  have d: "dyn noticeable5 = NoticeableDestructor_ty" "dyn second7 = SecondBase_ty"
    "members noticeable5 = [Ptr (Some 5), Val 0]"
    by (simp_all add: noticeable5_def second7_def)
  show ?thesis
    by (simp add: PolyBase_compiles fixtures_admitted 1 2 r d BoundedPoly_value_def step_defs
        get_after_def get_def empty_state_def)
qed

text \<open>
  C9, amended. For an admitted class \<open>T\<close> whose move constructor transfers every member
  and whose \<open>Base\<close> subobject lies at offset 0, a container constructed from a value \<open>v\<close>
  of class \<open>T\<close> holds, right after, an object with the dynamic type and the members of
  \<open>v\<close>, and \<open>get()\<close> refers to it.
\<close>

theorem construct_then_get:
  assumes "class_static_asserts I" and "can_handle I T"
    and "dyn v = T" and "length (members v) = nfields T"
    and "transfers_all T" and "reinterpretable I T"
  shows "\<exists>s'. BoundedPoly_value I this T v s = Inr s' \<and> get I this s' = Inr v \<and>
           dynamic_type this s' = Some T"
  using assms move_construct_exact [of v]
  by (auto simp: BoundedPoly_value_def get_def step_defs dynamic_type_def)

theorem construct_then_get_witness:
  "class_static_asserts PolyBase \<and> can_handle PolyBase Derived_ty \<and>
   dyn derived50 = Derived_ty \<and> length (members derived50) = nfields Derived_ty \<and>
   transfers_all Derived_ty \<and> reinterpretable PolyBase Derived_ty \<and>
   (\<exists>s'. BoundedPoly_value PolyBase 0 Derived_ty derived50 empty_state = Inr s' \<and>
      get PolyBase 0 s' = Inr derived50 \<and> dynamic_type 0 s' = Some Derived_ty)"
proof -
  have t: "transfers_all Derived_ty"
    by (simp add: transfers_all_implicit implicit_fixtures)
  have r: "reinterpretable PolyBase Derived_ty"
    by (simp add: reinterpretable_def fixture_defs)
  have d: "dyn derived50 = Derived_ty" "length (members derived50) = nfields Derived_ty"
    by (simp_all add: derived50_def nfields_fixtures)
  from construct_then_get [OF PolyBase_compiles(1) PolyBase_compiles(4) d t r]
  show ?thesis
    using PolyBase_compiles t r d by simp
qed

section \<open>Consistency of mover and value\<close>





















section \<open>Destruction\<close>










end
